theory Spec2Isabelle
  imports Main "HOL-Library.Word"
begin

section \<open>TensorView: a bounds-checked, one-based window on a shared buffer\<close>

text \<open>
  The development embeds the class template \<open>TensorView<T>\<close> of
  \<^verbatim>\<open>src/include/impl/TensorView.h\<close>. The element type \<open>T\<close> is the type
  variable \<open>'a\<close>. The machine types are those of an LP64 or LLP64 platform:
  \<open>size_t\<close> is a 64-bit unsigned word and \<open>int\<close> a 32-bit two's complement
  word, read with \<open>sint\<close>. The conversion \<open>static_cast<int>(length_)\<close> keeps the low
  32 bits (\<open>ucast\<close>), which is what C++20 prescribes and what earlier compilers do.
\<close>

type_synonym size_t = "64 word"
type_synonym c_int = "32 word"

subsection \<open>Memory\<close>

text \<open>
  Memory is a set of allocations (blocks), each an array of \<open>T\<close>. A pointer is
  \<open>nullptr\<close> or the address of element \<open>off\<close> of block \<open>b\<close>; pointer
  arithmetic stays inside the block. A block that has been freed is absent from
  \<open>blocks\<close>. View objects themselves are values outside this memory: no cell of a
  block overlays a field of a view.

  \<open>std::shared_ptr<void>\<close> is a handle on a control block, which counts the handles
  alive (\<open>use_count\<close>) and names the allocation that is freed when the last handle goes
  away. The null handle is \<open>None\<close>.
\<close>

type_synonym block = nat

datatype pointer = Null | Ptr block nat

type_synonym shared_ptr = "nat option"

record 'a memory =
  blocks :: "block \<rightharpoonup> 'a list"
  owners :: "nat \<rightharpoonup> nat \<times> block"

text \<open>
  The two ways a call can go wrong. \<open>IndexOutOfRange\<close> is the exception
  \<open>std::out_of_range\<close>. \<open>InvalidAccess\<close> is not an exception: it marks a
  dereference outside live memory, which C++ leaves undefined; the model stops there and
  leaves memory as it was.
\<close>

datatype fault = IndexOutOfRange | InvalidAccess

text \<open>\<open>p[k]\<close> as an rvalue, and the assignment \<open>p[k] = x\<close>.\<close>

definition load :: "'a memory \<Rightarrow> pointer \<Rightarrow> nat \<Rightarrow> fault + 'a" where
  "load m p k =
     (case p of
        Null \<Rightarrow> Inl InvalidAccess
      | Ptr b off \<Rightarrow>
          (case blocks m b of
             None \<Rightarrow> Inl InvalidAccess
           | Some xs \<Rightarrow> if off + k < length xs then Inr (xs ! (off + k)) else Inl InvalidAccess))"

definition store :: "'a memory \<Rightarrow> pointer \<Rightarrow> nat \<Rightarrow> 'a \<Rightarrow> (fault + unit) \<times> 'a memory" where
  "store m p k x =
     (case p of
        Null \<Rightarrow> (Inl InvalidAccess, m)
      | Ptr b off \<Rightarrow>
          (case blocks m b of
             None \<Rightarrow> (Inl InvalidAccess, m)
           | Some xs \<Rightarrow>
               if off + k < length xs
               then (Inr (), m\<lparr>blocks := (blocks m)(b \<mapsto> xs[off + k := x])\<rparr>)
               else (Inl InvalidAccess, m)))"

text \<open>Copying a \<open>shared_ptr\<close> adds a handle, destroying one removes it; the last one frees.\<close>

definition shared_ptr_copy :: "shared_ptr \<Rightarrow> 'a memory \<Rightarrow> 'a memory" where
  "shared_ptr_copy sp m =
     (case sp of
        None \<Rightarrow> m
      | Some c \<Rightarrow>
          (case owners m c of
             None \<Rightarrow> m
           | Some (n, b) \<Rightarrow> m\<lparr>owners := (owners m)(c \<mapsto> (n + 1, b))\<rparr>))"

definition shared_ptr_destroy :: "shared_ptr \<Rightarrow> 'a memory \<Rightarrow> 'a memory" where
  "shared_ptr_destroy sp m =
     (case sp of
        None \<Rightarrow> m
      | Some c \<Rightarrow>
          (case owners m c of
             None \<Rightarrow> m
           | Some (n, b) \<Rightarrow>
               if n \<le> 1
               then m\<lparr>blocks := (blocks m)(b := None), owners := (owners m)(c := None)\<rparr>
               else m\<lparr>owners := (owners m)(c \<mapsto> (n - 1, b))\<rparr>))"

subsection \<open>The class\<close>

text \<open>
  The private members \<open>data_\<close>, \<open>length_\<close> and \<open>owner_\<close>; a name may not end in an
  underscore here, hence the \<open>f\<close>.
\<close>

record 'a TensorView =
  data_f :: pointer
  length_f :: size_t
  owner_f :: shared_ptr

text \<open>
  The member functions are named \<open>TensorView_\<close>\<open>f\<close> for \<open>TensorView::f\<close>. A
  \<open>const\<close> member function takes the view and, where it reads elements, the memory. The
  one non-\<open>const\<close> member, \<open>set\<close>, returns its outcome together with the memory it
  leaves behind, also when it throws.
\<close>

definition TensorView_default :: "'a TensorView" where
  "TensorView_default = \<lparr>data_f = Null, length_f = 0, owner_f = None\<rparr>"

definition TensorView_init ::
    "pointer \<Rightarrow> size_t \<Rightarrow> shared_ptr \<Rightarrow> 'a memory \<Rightarrow> 'a TensorView \<times> 'a memory" where
  "TensorView_init d len owner m =
     (\<lparr>data_f = d, length_f = len, owner_f = owner\<rparr>, shared_ptr_copy owner m)"

definition TensorView_get :: "'a TensorView \<Rightarrow> c_int \<Rightarrow> 'a memory \<Rightarrow> fault + 'a" where
  "TensorView_get v idx m =
     (if sint idx < 1 \<or> sint idx > sint (ucast (length_f v) :: c_int)
      then Inl IndexOutOfRange
      else load m (data_f v) (nat (sint idx - 1)))"

definition TensorView_set ::
    "'a TensorView \<Rightarrow> c_int \<Rightarrow> 'a \<Rightarrow> 'a memory \<Rightarrow> (fault + unit) \<times> 'a memory" where
  "TensorView_set v idx val m =
     (if sint idx < 1 \<or> sint idx > sint (ucast (length_f v) :: c_int)
      then (Inl IndexOutOfRange, m)
      else store m (data_f v) (nat (sint idx - 1)) val)"

definition TensorView_length :: "'a TensorView \<Rightarrow> c_int" where
  "TensorView_length v = ucast (length_f v)"

definition TensorView_size :: "'a TensorView \<Rightarrow> size_t" where
  "TensorView_size v = length_f v"

definition TensorView_data :: "'a TensorView \<Rightarrow> pointer" where
  "TensorView_data v = data_f v"

definition TensorView_empty :: "'a TensorView \<Rightarrow> bool" where
  "TensorView_empty v = (length_f v = 0)"

definition TensorView_isValid :: "'a TensorView \<Rightarrow> bool" where
  "TensorView_isValid v = (data_f v \<noteq> Null)"

text \<open>
  The class declares no copy constructor and no destructor, so the compiler's are
  member-wise: the copy has the same pointer and length and one more handle on the
  owner; destruction gives the handle back.
\<close>

definition TensorView_copy :: "'a TensorView \<Rightarrow> 'a memory \<Rightarrow> 'a TensorView \<times> 'a memory" where
  "TensorView_copy v m =
     (\<lparr>data_f = data_f v, length_f = length_f v, owner_f = owner_f v\<rparr>,
      shared_ptr_copy (owner_f v) m)"

definition TensorView_destroy :: "'a TensorView \<Rightarrow> 'a memory \<Rightarrow> 'a memory" where
  "TensorView_destroy v m = shared_ptr_destroy (owner_f v) m"

subsection \<open>The call surface\<close>

text \<open>
  What a host binding can ask of the class, with one outcome type for all of it: a fault
  or a result, and for a member function the view and the memory as the call leaves
  them.
\<close>

datatype ctor = Ctor_default | Ctor_init pointer size_t shared_ptr

datatype 'a call =
  Call_get c_int | Call_set c_int 'a | Call_length | Call_size | Call_data | Call_empty
  | Call_isValid

datatype 'a result =
  R_elem 'a | R_void | R_int c_int | R_size size_t | R_ptr pointer | R_bool bool

fun construct :: "ctor \<Rightarrow> 'a memory \<Rightarrow> (fault + 'a TensorView) \<times> 'a memory" where
  "construct Ctor_default m = (Inr TensorView_default, m)"
| "construct (Ctor_init d len owner) m =
     (case TensorView_init d len owner m of (v, m') \<Rightarrow> (Inr v, m'))"

fun invoke ::
    "'a call \<Rightarrow> 'a TensorView \<Rightarrow> 'a memory
      \<Rightarrow> (fault + 'a result) \<times> 'a TensorView \<times> 'a memory" where
  "invoke (Call_get idx) v m =
     (case TensorView_get v idx m of Inl e \<Rightarrow> (Inl e, v, m) | Inr x \<Rightarrow> (Inr (R_elem x), v, m))"
| "invoke (Call_set idx val) v m =
     (case TensorView_set v idx val m of
        (Inl e, m') \<Rightarrow> (Inl e, v, m')
      | (Inr u, m') \<Rightarrow> (Inr R_void, v, m'))"
| "invoke Call_length v m = (Inr (R_int (TensorView_length v)), v, m)"
| "invoke Call_size v m = (Inr (R_size (TensorView_size v)), v, m)"
| "invoke Call_data v m = (Inr (R_ptr (TensorView_data v)), v, m)"
| "invoke Call_empty v m = (Inr (R_bool (TensorView_empty v)), v, m)"
| "invoke Call_isValid v m = (Inr (R_bool (TensorView_isValid v)), v, m)"

fun is_accessor :: "'a call \<Rightarrow> bool" where
  "is_accessor (Call_get idx) = True"
| "is_accessor (Call_set idx val) = True"
| "is_accessor mth = False"

subsection \<open>Vocabulary of the properties\<close>

text \<open>
  The class cannot check the pointer and length it is given. \<open>range_valid\<close> is the
  caller's side of the contract: elements \<open>0 .. length_ - 1\<close> from \<open>data_\<close> lie in a
  live block, and a null pointer comes with length 0.
\<close>

definition range_valid :: "'a TensorView \<Rightarrow> 'a memory \<Rightarrow> bool" where
  "range_valid v m =
     (case data_f v of
        Null \<Rightarrow> length_f v = 0
      | Ptr b off \<Rightarrow>
          (case blocks m b of
             None \<Rightarrow> False
           | Some xs \<Rightarrow> off + unat (length_f v) \<le> length xs))"

text \<open>A view with an owner holds one of the handles counted in the owner's control block.\<close>

definition holds_share :: "'a TensorView \<Rightarrow> 'a memory \<Rightarrow> bool" where
  "holds_share v m =
     (case owner_f v of
        None \<Rightarrow> True
      | Some c \<Rightarrow> (case owners m c of None \<Rightarrow> False | Some (n, b) \<Rightarrow> 1 \<le> n))"

definition use_count :: "shared_ptr \<Rightarrow> 'a memory \<Rightarrow> nat" where
  "use_count sp m =
     (case sp of
        None \<Rightarrow> 0
      | Some c \<Rightarrow> (case owners m c of None \<Rightarrow> 0 | Some (n, b) \<Rightarrow> n))"

text \<open>The cell a pointer and an offset denote, and what a block holds there.\<close>

definition cell :: "pointer \<Rightarrow> nat \<Rightarrow> (block \<times> nat) option" where
  "cell p k = (case p of Null \<Rightarrow> None | Ptr b off \<Rightarrow> Some (b, off + k))"

definition content :: "'a memory \<Rightarrow> block \<times> nat \<Rightarrow> 'a option" where
  "content m c =
     (case blocks m (fst c) of
        None \<Rightarrow> None
      | Some xs \<Rightarrow> if snd c < length xs then Some (xs ! snd c) else None)"

text \<open>A sequence of \<open>set\<close> calls on one view, each on the memory the previous one left.\<close>

fun set_all :: "'a TensorView \<Rightarrow> (c_int \<times> 'a) list \<Rightarrow> 'a memory \<Rightarrow> 'a memory" where
  "set_all v [] m = m"
| "set_all v ((idx, val) # ws) m = set_all v ws (snd (TensorView_set v idx val m))"

text \<open>Concrete views and memories for the scenarios below.\<close>

definition mem5 :: "int memory" where
  "mem5 = \<lparr>blocks = [0 \<mapsto> [10, 20, 30, 40, 50]], owners = [0 \<mapsto> (1, 0)]\<rparr>"

definition view5 :: "int TensorView" where
  "view5 = \<lparr>data_f = Ptr 0 0, length_f = 5, owner_f = Some 0\<rparr>"

definition mem_huge :: "nat \<Rightarrow> int memory" where
  "mem_huge n = \<lparr>blocks = [0 \<mapsto> replicate n 7], owners = Map.empty\<rparr>"

definition view_huge :: "size_t \<Rightarrow> int TensorView" where
  "view_huge len = \<lparr>data_f = Ptr 0 0, length_f = len, owner_f = None\<rparr>"

section \<open>Narrowing the length to \<open>int\<close>\<close>

lemma sint_narrow:
  "sint (ucast (w :: size_t) :: c_int) = (uint w + 2 ^ 31) mod 2 ^ 32 - 2 ^ 31"
proof -
  have "sint (ucast w :: c_int) = signed_take_bit 31 (uint w)"
    by (simp add: sint_uint unsigned_ucast_eq signed_take_bit_take_bit)
  then show ?thesis
    by (simp add: signed_take_bit_eq_take_bit_shift take_bit_eq_mod)
qed

lemma sint_narrow_small:
  assumes "uint (w :: size_t) < 2 ^ 31"
  shows "sint (ucast w :: c_int) = uint w"
proof -
  have "0 \<le> uint w" by simp
  with assms show ?thesis by (simp add: sint_narrow)
qed

lemma ucast_zero_small:
  assumes "uint (w :: size_t) < 2 ^ 32"
  shows "(ucast w :: c_int) = 0 \<longleftrightarrow> w = 0"
proof
  assume "(ucast w :: c_int) = 0"
  then have "uint (ucast w :: c_int) = 0" by simp
  then have "uint w mod 2 ^ 32 = 0" by (simp add: unsigned_ucast_eq take_bit_eq_mod)
  with assms have "uint w = 0" by simp
  then show "w = 0" by (simp add: unsigned_eq_0_iff)
qed simp

lemma beyond_length_narrow:
  assumes "uint (w :: size_t) < sint (idx :: c_int)"
  shows "sint (ucast w :: c_int) < sint idx"
proof -
  have "sint idx < 2 ^ 31" using sint_lt [of idx] by simp
  with assms have "uint w < 2 ^ 31" by simp
  then have "sint (ucast w :: c_int) = uint w" by (rule sint_narrow_small)
  with assms show ?thesis by simp
qed

lemma sint_succ_cases:
  "sint ((c :: c_int) + 1) < 1 \<or> sint c < sint (c + 1)"
proof (cases "sint c = 2 ^ 31 - 1")
  case True
  then have "sint (c + 1) = signed_take_bit 31 (2 ^ 31 :: int)"
    by (simp add: sint_word_ariths)
  then show ?thesis by (simp add: signed_take_bit_eq_take_bit_shift take_bit_eq_mod)
next
  case False
  have "sint c < 2 ^ 31" "- (2 ^ 31) \<le> sint c"
    using sint_lt [of c] sint_ge [of c] by simp_all
  with False have "- (2 ^ 31) \<le> sint c + 1" "sint c + 1 < 2 ^ 31" by simp_all
  then have "signed_take_bit 31 (sint c + 1) = sint c + 1"
    by (simp add: signed_take_bit_int_eq_self)
  then have "sint (c + 1) = sint c + 1" by (simp add: sint_word_ariths)
  then show ?thesis by simp
qed

text \<open>
  C3. \<open>size()\<close> is the element count as stored, at the width of \<open>size_t\<close>;
  \<open>length()\<close> is that count narrowed to \<open>int\<close>, that is, reduced modulo \<open>2^32\<close>
  into the signed range; and when the count is representable in \<open>int\<close> (below
  \<open>2^31\<close>) the two agree.
\<close>

theorem length_narrows_size:
  "TensorView_size v = length_f v \<and>
   sint (TensorView_length v) = (uint (TensorView_size v) + 2 ^ 31) mod 2 ^ 32 - 2 ^ 31 \<and>
   (uint (TensorView_size v) < 2 ^ 31 \<longrightarrow>
      sint (TensorView_length v) = uint (TensorView_size v))"
  by (simp add: TensorView_size_def TensorView_length_def sint_narrow sint_narrow_small)

theorem length_narrows_size_witness:
  "uint (TensorView_size view5) < 2 ^ 31 \<and> sint (TensorView_length view5) = 5 \<and>
   TensorView_size view5 = 5"
  using length_narrows_size [of view5]
  by (simp add: view5_def TensorView_size_def)

section \<open>Emptiness, validity and the default view\<close>

text \<open>
  C4, as the code has it. \<open>empty()\<close> is true exactly when the element count
  \<open>size()\<close> is 0, and \<open>isValid()\<close> exactly when the pointer is not null. For a count
  below \<open>2^32\<close>, so in particular for every count representable in \<open>int\<close>,
  \<open>empty()\<close> is true exactly when \<open>length() == 0\<close>.
\<close>

theorem empty_isValid:
  "(TensorView_empty v \<longleftrightarrow> TensorView_size v = 0) \<and>
   (TensorView_isValid v \<longleftrightarrow> TensorView_data v \<noteq> Null) \<and>
   (uint (TensorView_size v) < 2 ^ 32 \<longrightarrow>
      (TensorView_empty v \<longleftrightarrow> TensorView_length v = 0))"
  by (simp add: TensorView_empty_def TensorView_size_def TensorView_isValid_def
      TensorView_data_def TensorView_length_def ucast_zero_small)

theorem empty_isValid_witness:
  "uint (TensorView_size view5) < 2 ^ 32 \<and>
   (TensorView_empty view5 \<longleftrightarrow> TensorView_length view5 = 0) \<and>
   \<not> TensorView_empty view5 \<and> TensorView_isValid view5"
  using empty_isValid [of view5]
  by (simp add: view5_def TensorView_size_def TensorView_empty_def TensorView_isValid_def)

text \<open>
  C4 as stated fails for a view of \<open>2^32\<close> elements over a live buffer of that many:
  it is not empty, and its \<open>length()\<close> is 0.
\<close>

theorem empty_length_counterexample:
  "range_valid (view_huge 4294967296) (mem_huge 4294967296) \<and>
   \<not> (TensorView_empty (view_huge 4294967296) \<longleftrightarrow>
        TensorView_length (view_huge 4294967296) = 0)"
  by (simp add: range_valid_def view_huge_def mem_huge_def TensorView_empty_def
      TensorView_length_def)

text \<open>
  C5. The default constructor sets the pointer to null, the length to 0 and the owner to
  the null handle. The view it makes is empty and not valid, \<open>data()\<close> gives the null
  pointer and \<open>length()\<close> gives 0.
\<close>

theorem default_view:
  "data_f (TensorView_default :: 'a TensorView) = Null \<and>
   length_f (TensorView_default :: 'a TensorView) = 0 \<and>
   owner_f (TensorView_default :: 'a TensorView) = None \<and>
   TensorView_empty (TensorView_default :: 'a TensorView) \<and>
   \<not> TensorView_isValid (TensorView_default :: 'a TensorView) \<and>
   TensorView_data (TensorView_default :: 'a TensorView) = Null \<and>
   TensorView_length (TensorView_default :: 'a TensorView) = 0"
  by (simp add: TensorView_default_def TensorView_empty_def TensorView_isValid_def
      TensorView_data_def TensorView_length_def)

section \<open>The bounds check of \<open>get\<close> and \<open>set\<close>\<close>

lemma load_not_out_of_range: "load m p k \<noteq> Inl IndexOutOfRange"
  by (simp add: load_def split: pointer.split option.split)

lemma store_not_out_of_range: "fst (store m p k x) \<noteq> Inl IndexOutOfRange"
  by (simp add: store_def split: pointer.split option.split)

lemma get_raises_iff:
  "TensorView_get v idx m = Inl IndexOutOfRange \<longleftrightarrow>
     sint idx < 1 \<or> sint (TensorView_length v) < sint idx"
  by (simp add: TensorView_get_def TensorView_length_def load_not_out_of_range)

lemma set_raises_iff:
  "fst (TensorView_set v idx x m) = Inl IndexOutOfRange \<longleftrightarrow>
     sint idx < 1 \<or> sint (TensorView_length v) < sint idx"
  by (simp add: TensorView_set_def TensorView_length_def store_not_out_of_range)

text \<open>
  The two lemmas above are the rule the code applies, for every view: the index is
  compared with \<open>length()\<close>, the count narrowed to \<open>int\<close>, not with the count. What
  follows from it: for a count representable in \<open>int\<close> (below \<open>2^31\<close>) the rule is
  the interval \<open>[1, length_]\<close>; for every count, an index outside \<open>[1, length_]\<close>
  throws, as do \<open>get(0)\<close>, \<open>get(length() + 1)\<close> and \<open>get(-1)\<close>, and \<open>set\<close> throws
  exactly when \<open>get\<close> does.
\<close>

lemma get_set_bounds:
  "(uint (length_f v) < 2 ^ 31 \<longrightarrow>
      (TensorView_get v idx m = Inl IndexOutOfRange \<longleftrightarrow>
         sint idx < 1 \<or> uint (length_f v) < sint idx)) \<and>
   (sint idx < 1 \<or> uint (length_f v) < sint idx \<longrightarrow>
      TensorView_get v idx m = Inl IndexOutOfRange) \<and>
   TensorView_get v 0 m = Inl IndexOutOfRange \<and>
   TensorView_get v (TensorView_length v + 1) m = Inl IndexOutOfRange \<and>
   TensorView_get v (- 1) m = Inl IndexOutOfRange \<and>
   (fst (TensorView_set v idx x m) = Inl IndexOutOfRange \<longleftrightarrow>
      TensorView_get v idx m = Inl IndexOutOfRange)"
proof (intro conjI impI)
  assume "uint (length_f v) < 2 ^ 31"
  then have "sint (TensorView_length v) = uint (length_f v)"
    by (simp add: TensorView_length_def sint_narrow_small)
  then show "TensorView_get v idx m = Inl IndexOutOfRange \<longleftrightarrow>
      sint idx < 1 \<or> uint (length_f v) < sint idx"
    by (simp add: get_raises_iff)
next
  assume "sint idx < 1 \<or> uint (length_f v) < sint idx"
  then show "TensorView_get v idx m = Inl IndexOutOfRange"
    using beyond_length_narrow [of "length_f v" idx]
    by (auto simp add: get_raises_iff TensorView_length_def)
next
  show "TensorView_get v 0 m = Inl IndexOutOfRange"
    by (simp add: get_raises_iff)
next
  show "TensorView_get v (TensorView_length v + 1) m = Inl IndexOutOfRange"
    using sint_succ_cases [of "TensorView_length v"] by (simp add: get_raises_iff)
next
  show "TensorView_get v (- 1) m = Inl IndexOutOfRange"
    by (simp add: get_raises_iff)
next
  show "fst (TensorView_set v idx x m) = Inl IndexOutOfRange \<longleftrightarrow>
      TensorView_get v idx m = Inl IndexOutOfRange"
    by (simp add: get_raises_iff set_raises_iff)
qed

text \<open>
  Where the narrowing bites: a count from \<open>2^31\<close> up to \<open>2^32 - 1\<close> narrows to a
  negative \<open>int\<close>, so every index is refused, by \<open>get\<close> and by \<open>set\<close>, and no
  element of such a view can be read or written.
\<close>

lemma unreadable_view:
  assumes "2 ^ 31 \<le> uint (length_f v)" and "uint (length_f v) < 2 ^ 32"
  shows "TensorView_get v idx m = Inl IndexOutOfRange"
    and "TensorView_set v idx x m = (Inl IndexOutOfRange, m)"
proof -
  from assms have "(uint (length_f v) + 2 ^ 31) mod 2 ^ 32 = uint (length_f v) - 2 ^ 31"
    by (simp add: mod_pos_geq)
  with assms have "sint (ucast (length_f v) :: c_int) < 0"
    by (simp add: sint_narrow)
  then have "sint idx < 1 \<or> sint (ucast (length_f v) :: c_int) < sint idx"
    by linarith
  then show "TensorView_get v idx m = Inl IndexOutOfRange"
    and "TensorView_set v idx x m = (Inl IndexOutOfRange, m)"
    by (simp_all add: TensorView_get_def TensorView_set_def)
qed

text \<open>
  C1. The claim is that \<open>get(i)\<close> throws \<open>IndexOutOfRange\<close> exactly when \<open>i\<close> is
  outside \<open>[1, length]\<close>, and \<open>set\<close> likewise. The code does otherwise on a view of
  \<open>2^31\<close> elements over a live buffer of that many: index 1 is inside
  \<open>[1, length]\<close> and position 0 holds the element 7, yet \<open>get(1)\<close> throws
  \<open>IndexOutOfRange\<close>, and \<open>set(1, 99)\<close> throws it too and writes nothing. The length
  is compared as the \<open>int\<close> \<open>-2^31\<close>.
\<close>

theorem get_rejects_valid_index:
  "range_valid (view_huge 2147483648) (mem_huge 2147483648) \<and>
   1 \<le> sint (1 :: c_int) \<and> sint (1 :: c_int) \<le> uint (length_f (view_huge 2147483648)) \<and>
   content (mem_huge 2147483648) (0, 0) = Some 7 \<and>
   sint (TensorView_length (view_huge 2147483648)) = - 2147483648 \<and>
   TensorView_get (view_huge 2147483648) 1 (mem_huge 2147483648) = Inl IndexOutOfRange \<and>
   TensorView_set (view_huge 2147483648) 1 99 (mem_huge 2147483648) =
     (Inl IndexOutOfRange, mem_huge 2147483648)"
  by (simp add: range_valid_def view_huge_def mem_huge_def content_def TensorView_length_def
      TensorView_get_def TensorView_set_def)

text \<open>
  C9. When the index is outside \<open>[1, length]\<close>, \<open>set\<close> throws \<open>IndexOutOfRange\<close> and
  the memory it leaves is the memory it was given: the check comes before the write.
\<close>

theorem failed_set_no_effect:
  assumes "sint idx < 1 \<or> uint (length_f v) < sint idx"
  shows "TensorView_set v idx x m = (Inl IndexOutOfRange, m)"
proof -
  from assms have "sint idx < 1 \<or> sint (ucast (length_f v) :: c_int) < sint idx"
    using beyond_length_narrow [of "length_f v" idx] by auto
  then show ?thesis by (simp add: TensorView_set_def)
qed

theorem failed_set_no_effect_witness:
  "(sint (6 :: c_int) < 1 \<or> uint (length_f view5) < sint (6 :: c_int)) \<and>
   TensorView_set view5 6 99 mem5 = (Inl IndexOutOfRange, mem5)"
  using failed_set_no_effect [of 6 view5 99 mem5]
  by (simp add: view5_def)

section \<open>What \<open>get\<close> reads and \<open>set\<close> writes\<close>

lemma load_content:
  "load m p k = (case Option.bind (cell p k) (content m) of None \<Rightarrow> Inl InvalidAccess | Some y \<Rightarrow> Inr y)"
  by (simp add: load_def cell_def content_def split: pointer.split option.split)

lemma store_content:
  "content (snd (store m p k x)) c =
     (if cell p k = Some c \<and> content m c \<noteq> None then Some x else content m c)"
  by (cases c) (auto simp add: store_def cell_def content_def split: pointer.split option.split)

lemma store_fst:
  "fst (store m p k x) =
     (case Option.bind (cell p k) (content m) of None \<Rightarrow> Inl InvalidAccess | Some y \<Rightarrow> Inr ())"
  by (simp add: store_def cell_def content_def split: pointer.split option.split)

lemma store_owners: "owners (snd (store m p k x)) = owners m"
  by (simp add: store_def split: pointer.split option.split)

lemma store_range_valid: "range_valid v (snd (store m p k x)) = range_valid v m"
  by (auto simp add: store_def range_valid_def split: pointer.split option.split)

lemma range_valid_content:
  assumes "range_valid v m" and "k < unat (length_f v)"
  shows "\<exists>c y. cell (data_f v) k = Some c \<and> content m c = Some y"
  using assms
  by (auto simp add: range_valid_def cell_def content_def split: pointer.splits option.splits)

lemma index_offset:
  assumes "1 \<le> sint (idx :: c_int)" and "sint idx \<le> uint (w :: size_t)"
  shows "nat (sint idx - 1) < unat w"
proof -
  have "uint w = int (unat w)" by simp
  with assms show ?thesis by linarith
qed

lemma narrow_le: "sint (ucast (w :: size_t) :: c_int) \<le> uint w"
proof -
  have "0 \<le> uint w + 2 ^ 31" by simp
  then have "(uint w + 2 ^ 31) mod 2 ^ 32 \<le> uint w + 2 ^ 31"
    by (rule zmod_le_nonneg_dividend)
  then show ?thesis by (simp add: sint_narrow)
qed

lemma accepted_in_count:
  assumes "1 \<le> sint idx" and "sint idx \<le> sint (TensorView_length v)"
  shows "sint idx \<le> uint (length_f v)"
  using assms narrow_le [of "length_f v"] by (simp add: TensorView_length_def)

lemma check_passes:
  assumes "1 \<le> sint idx" and "sint idx \<le> sint (TensorView_length v)"
  shows "\<not> (sint idx < 1 \<or> sint idx > sint (ucast (length_f v) :: c_int))"
  using assms by (simp add: TensorView_length_def)

lemma set_range_valid: "range_valid v (snd (TensorView_set v' idx x m)) = range_valid v m"
  by (simp add: TensorView_set_def store_range_valid)

lemma get_after_set:
  assumes "range_valid v m"
    and "1 \<le> sint idx" and "sint idx \<le> sint (TensorView_length v)"
  shows "TensorView_get v idx (snd (TensorView_set v j x m)) =
           (if j = idx then Inr x else TensorView_get v idx m)"
proof -
  let ?k = "nat (sint idx - 1)"
  from assms obtain c y where c: "cell (data_f v) ?k = Some c" "content m c = Some y"
    using range_valid_content [of v m ?k] index_offset [of idx "length_f v"]
      accepted_in_count [of idx v] by blast
  note ok = check_passes [OF assms(2-3)]
  show ?thesis
  proof (cases "sint j < 1 \<or> sint j > sint (ucast (length_f v) :: c_int)")
    case True
    with ok have "j \<noteq> idx" by auto
    with True show ?thesis by (simp add: TensorView_set_def)
  next
    case False
    show ?thesis
    proof (cases "j = idx")
      case True
      with ok c show ?thesis
        by (simp add: TensorView_set_def TensorView_get_def load_content store_content)
    next
      case neq: False
      have "sint j \<noteq> sint idx" using neq by (auto dest: signed_word_eqI)
      with False assms(2) have "nat (sint j - 1) \<noteq> ?k" by linarith
      then have "cell (data_f v) (nat (sint j - 1)) \<noteq> Some c"
        using c(1) by (auto simp add: cell_def split: pointer.splits)
      with neq ok False c show ?thesis
        by (simp add: TensorView_set_def TensorView_get_def load_content store_content)
    qed
  qed
qed

lemma get_set_all:
  assumes "range_valid v m"
    and "1 \<le> sint idx" and "sint idx \<le> sint (TensorView_length v)"
  shows "TensorView_get v idx (set_all v ws m) =
           (case map_of (rev ws) idx of Some y \<Rightarrow> Inr y | None \<Rightarrow> TensorView_get v idx m)"
  using assms(1)
proof (induction ws arbitrary: m)
  case Nil
  then show ?case by simp
next
  case (Cons w ws)
  obtain j y where w: "w = (j, y)" by (cases w)
  let ?m1 = "snd (TensorView_set v j y m)"
  have "range_valid v ?m1" using Cons.prems by (simp add: set_range_valid)
  then have "TensorView_get v idx (set_all v ws ?m1) =
      (case map_of (rev ws) idx of Some y \<Rightarrow> Inr y | None \<Rightarrow> TensorView_get v idx ?m1)"
    by (rule Cons.IH)
  moreover have "TensorView_get v idx ?m1 = (if j = idx then Inr y else TensorView_get v idx m)"
    using Cons.prems assms(2-3) by (rule get_after_set)
  ultimately show ?case
    by (auto simp add: w map_add_def split: option.split)
qed

text \<open>
  What the code does deliver. Take a view whose range of \<open>length_\<close> elements from
  \<open>data_\<close> is live, and an index \<open>i\<close> that passes the code's check, that is,
  \<open>1 \<le> i \<le> length()\<close> with the narrowed length. Then \<open>get(i)\<close> returns the element
  stored at internal position \<open>i - 1\<close>; \<open>set(i, x)\<close> succeeds and a \<open>get(i)\<close> after
  it returns \<open>x\<close>; and after any sequence of \<open>set\<close> calls on the view, \<open>get(i)\<close>
  returns the value of the last call that wrote index \<open>i\<close>, or, if none did, what
  \<open>get(i)\<close> returned before the sequence. An index that passes the check is in
  \<open>1..length_\<close>; on a view of fewer than \<open>2^31\<close> elements the indices that pass are
  all of \<open>1..length_\<close>.
\<close>

lemma get_set_values:
  assumes "range_valid v m"
    and "1 \<le> sint idx" and "sint idx \<le> sint (TensorView_length v)"
  shows "(\<exists>y. TensorView_get v idx m = Inr y \<and>
              Option.bind (cell (data_f v) (nat (sint idx - 1))) (content m) = Some y) \<and>
         fst (TensorView_set v idx x m) = Inr () \<and>
         TensorView_get v idx (snd (TensorView_set v idx x m)) = Inr x \<and>
         TensorView_get v idx (set_all v ws m) =
           (case map_of (rev ws) idx of Some y \<Rightarrow> Inr y | None \<Rightarrow> TensorView_get v idx m)"
proof -
  let ?k = "nat (sint idx - 1)"
  from assms obtain c y where c: "cell (data_f v) ?k = Some c" "content m c = Some y"
    using range_valid_content [of v m ?k] index_offset [of idx "length_f v"]
      accepted_in_count [of idx v] by blast
  note ok = check_passes [OF assms(2-3)]
  from ok c have "TensorView_get v idx m = Inr y"
    by (simp add: TensorView_get_def load_content)
  moreover from c have "Option.bind (cell (data_f v) ?k) (content m) = Some y" by simp
  moreover from ok c have "fst (TensorView_set v idx x m) = Inr ()"
    by (simp add: TensorView_set_def store_fst)
  moreover have "TensorView_get v idx (snd (TensorView_set v idx x m)) = Inr x"
    using get_after_set [OF assms, of idx x] by simp
  ultimately show ?thesis using get_set_all [OF assms, of ws] by simp
qed

text \<open>
  The buffer \<open>[10, 20, 30, 40, 50]\<close> with a view over all of it: \<open>get(1)\<close> is 10,
  \<open>get(5)\<close> is 50, \<open>get(6)\<close> throws, and after \<open>set(3, 99)\<close>, \<open>get(3)\<close> is 99.
\<close>

lemma get_set_values_scenario:
  "range_valid view5 mem5 \<and>
   1 \<le> sint (3 :: c_int) \<and> sint (3 :: c_int) \<le> sint (TensorView_length view5) \<and>
   TensorView_get view5 1 mem5 = Inr 10 \<and>
   TensorView_get view5 3 mem5 = Inr 30 \<and>
   TensorView_get view5 5 mem5 = Inr 50 \<and>
   TensorView_get view5 6 mem5 = Inl IndexOutOfRange \<and>
   TensorView_get view5 3 (snd (TensorView_set view5 3 99 mem5)) = Inr 99 \<and>
   TensorView_get view5 3 (set_all view5 [(3, 98), (2, 21), (3, 99), (4, 41)] mem5) = Inr 99"
  using get_set_values [of view5 mem5 3 99 "[(3, 98), (2, 21), (3, 99), (4, 41)]"]
  by (simp add: view5_def mem5_def range_valid_def TensorView_length_def TensorView_get_def
      load_def)

text \<open>
  C2. The claim is that for every \<open>i\<close> in \<open>1..length\<close>, \<open>get(i)\<close> returns the value
  at internal position \<open>i - 1\<close> and \<open>set(i, x)\<close> followed by \<open>get(i)\<close> returns \<open>x\<close>.
  The code does otherwise on a view of \<open>2^32 + 5\<close> elements over a live buffer of that
  many: index 6 is in \<open>1..length\<close> and position 5 holds 7, yet \<open>get(6)\<close> throws
  \<open>IndexOutOfRange\<close> instead of returning 7, \<open>set(6, 99)\<close> throws and leaves memory
  as it was, and a \<open>get(6)\<close> after it does not return 99. The length is compared as the
  \<open>int\<close> 5, so indices 1 to 5 are still served: \<open>get(1)\<close> returns 7.
\<close>

theorem get_misses_stored_value:
  "range_valid (view_huge 4294967301) (mem_huge 4294967301) \<and>
   1 \<le> sint (6 :: c_int) \<and> sint (6 :: c_int) \<le> uint (length_f (view_huge 4294967301)) \<and>
   content (mem_huge 4294967301) (0, 5) = Some 7 \<and>
   TensorView_get (view_huge 4294967301) 6 (mem_huge 4294967301) = Inl IndexOutOfRange \<and>
   TensorView_set (view_huge 4294967301) 6 99 (mem_huge 4294967301) =
     (Inl IndexOutOfRange, mem_huge 4294967301) \<and>
   TensorView_get (view_huge 4294967301) 6
     (snd (TensorView_set (view_huge 4294967301) 6 99 (mem_huge 4294967301))) \<noteq> Inr 99 \<and>
   TensorView_get (view_huge 4294967301) 1 (mem_huge 4294967301) = Inr 7"
  by (simp add: range_valid_def view_huge_def mem_huge_def content_def TensorView_get_def
      TensorView_set_def load_def)

text \<open>
  C10. For an index \<open>i\<close> in \<open>[1, length]\<close>, \<open>set(i, x)\<close> leaves every cell of
  memory other than internal position \<open>i - 1\<close> of the view as it was: a cell \<open>c\<close> of
  any block that is not that position keeps its content, position \<open>j \<noteq> i - 1\<close> of the
  view reads as before, and the control blocks of the owners are untouched.
\<close>

theorem set_frame:
  assumes "1 \<le> sint idx" and "sint idx \<le> uint (length_f v)"
  shows "(cell (data_f v) (nat (sint idx - 1)) \<noteq> Some c \<longrightarrow>
            content (snd (TensorView_set v idx x m)) c = content m c) \<and>
         (j \<noteq> nat (sint idx - 1) \<longrightarrow>
            load (snd (TensorView_set v idx x m)) (data_f v) j = load m (data_f v) j) \<and>
         owners (snd (TensorView_set v idx x m)) = owners m"
proof (intro conjI impI)
  assume "cell (data_f v) (nat (sint idx - 1)) \<noteq> Some c"
  then show "content (snd (TensorView_set v idx x m)) c = content m c"
    by (simp add: TensorView_set_def store_content)
next
  assume "j \<noteq> nat (sint idx - 1)"
  then have "cell (data_f v) j \<noteq> cell (data_f v) (nat (sint idx - 1)) \<or> cell (data_f v) j = None"
    by (simp add: cell_def split: pointer.split)
  then show "load (snd (TensorView_set v idx x m)) (data_f v) j = load m (data_f v) j"
    by (cases "cell (data_f v) j") (auto simp add: load_content TensorView_set_def store_content)
next
  show "owners (snd (TensorView_set v idx x m)) = owners m"
    by (simp add: TensorView_set_def store_owners)
qed

theorem set_frame_witness:
  "1 \<le> sint (3 :: c_int) \<and> sint (3 :: c_int) \<le> uint (length_f view5) \<and>
   cell (data_f view5) (nat (sint (3 :: c_int) - 1)) \<noteq> Some (0, 4) \<and>
   (1 :: nat) \<noteq> nat (sint (3 :: c_int) - 1) \<and>
   content (snd (TensorView_set view5 3 99 mem5)) (0, 4) = Some 50 \<and>
   load (snd (TensorView_set view5 3 99 mem5)) (data_f view5) 1 = Inr 20"
  using set_frame [of 3 view5 "(0, 4)" 99 mem5 1]
  by (simp add: view5_def mem5_def cell_def content_def load_def)

section \<open>Totality and the fields of the view\<close>

text \<open>
  C6. Both constructors return a view on every input, and every member function other
  than \<open>get\<close> and \<open>set\<close> (\<open>length\<close>, \<open>size\<close>, \<open>data\<close>, \<open>empty\<close>, \<open>isValid\<close>)
  returns a result on every view and memory: none of them has a fault as outcome.
\<close>

theorem only_accessors_fail:
  "(\<exists>v'. fst (construct ct m) = Inr v') \<and>
   (\<not> is_accessor mth \<longrightarrow> (\<exists>r. fst (invoke mth v m) = Inr r))"
proof
  show "\<exists>v'. fst (construct ct m) = Inr v'"
    by (cases ct) (simp_all add: TensorView_init_def)
next
  show "\<not> is_accessor mth \<longrightarrow> (\<exists>r. fst (invoke mth v m) = Inr r)"
    by (cases mth) simp_all
qed

theorem only_accessors_fail_witness:
  "\<not> is_accessor (Call_length :: int call) \<and>
   fst (invoke Call_length view5 mem5) = Inr (R_int 5) \<and>
   fst (construct (Ctor_init (Ptr 0 0) 5 (Some 0)) mem5) = Inr view5"
  using only_accessors_fail [of "Ctor_init (Ptr 0 0) 5 (Some 0)" mem5 Call_length view5]
  by (simp add: view5_def TensorView_length_def TensorView_init_def)

text \<open>
  C7. Whatever member function is called (\<open>get\<close>, \<open>set\<close>, \<open>length\<close>, \<open>size\<close>,
  \<open>data\<close>, \<open>empty\<close>, \<open>isValid\<close>), with whatever arguments and outcome, the view
  has the same pointer, length and owner after the call as before: only memory can change.
\<close>

theorem view_fields_unchanged:
  "data_f (fst (snd (invoke mth v m))) = data_f v \<and>
   length_f (fst (snd (invoke mth v m))) = length_f v \<and>
   owner_f (fst (snd (invoke mth v m))) = owner_f v \<and>
   fst (snd (invoke mth v m)) = v"
  by (cases mth) (simp_all split: sum.split prod.split)

section \<open>Copies\<close>

lemma load_blocks: "blocks m' = blocks m \<Longrightarrow> load m' p k = load m p k"
  by (simp add: load_def split: pointer.split)

lemma store_blocks:
  assumes "blocks m' = blocks m"
  shows "fst (store m' p k x) = fst (store m p k x)"
    and "blocks (snd (store m' p k x)) = blocks (snd (store m p k x))"
  using assms by (simp_all add: store_def split: pointer.split option.split)

lemma copy_then_destroy:
  assumes "holds_share v m"
  shows "shared_ptr_destroy (owner_f v) (shared_ptr_copy (owner_f v) m) = m"
proof (cases "owner_f v")
  case None
  then show ?thesis by (simp add: shared_ptr_destroy_def shared_ptr_copy_def)
next
  case (Some c)
  with assms obtain n b where nb: "owners m c = Some (n, b)" "1 \<le> n"
    by (auto simp add: holds_share_def split: option.splits)
  then have "(owners m)(c \<mapsto> (n, b)) = owners m" by (simp add: fun_upd_idem)
  with Some nb show ?thesis
    by (simp add: shared_ptr_destroy_def shared_ptr_copy_def)
qed

text \<open>
  C8. Copying a view that holds a share of its owner gives a view with the same pointer,
  length and owner; the blocks of memory are the same after the copy (nothing is
  duplicated) and the owner's use count is one higher. For every index, \<open>get\<close> and
  \<open>set\<close> through the copy do what they do through the original, and they still do
  after the original has been destroyed.
\<close>

theorem copy_shares_data:
  assumes "holds_share v m"
  shows "(case TensorView_copy v m of (c, m1) \<Rightarrow>
           data_f c = data_f v \<and> length_f c = length_f v \<and> owner_f c = owner_f v \<and>
           blocks m1 = blocks m \<and>
           use_count (owner_f v) m1 =
             (if owner_f v = None then 0 else use_count (owner_f v) m + 1) \<and>
           TensorView_get c idx m1 = TensorView_get v idx m \<and>
           fst (TensorView_set c idx x m1) = fst (TensorView_set v idx x m) \<and>
           blocks (snd (TensorView_set c idx x m1)) = blocks (snd (TensorView_set v idx x m)) \<and>
           TensorView_get c idx (TensorView_destroy v m1) = TensorView_get v idx m \<and>
           TensorView_set c idx x (TensorView_destroy v m1) = TensorView_set v idx x m)"
proof -
  let ?c = "fst (TensorView_copy v m)" and ?m1 = "snd (TensorView_copy v m)"
  have c: "?c = v" by (simp add: TensorView_copy_def)
  have m1: "?m1 = shared_ptr_copy (owner_f v) m" by (simp add: TensorView_copy_def)
  have b: "blocks ?m1 = blocks m"
    by (simp add: m1 shared_ptr_copy_def split: option.split)
  have u: "use_count (owner_f v) ?m1 =
      (if owner_f v = None then 0 else use_count (owner_f v) m + 1)"
    using assms
    by (auto simp add: m1 use_count_def shared_ptr_copy_def holds_share_def split: option.splits)
  have g: "TensorView_get v idx ?m1 = TensorView_get v idx m"
    by (simp add: TensorView_get_def load_blocks [OF b])
  have s: "fst (TensorView_set v idx x ?m1) = fst (TensorView_set v idx x m)"
    "blocks (snd (TensorView_set v idx x ?m1)) = blocks (snd (TensorView_set v idx x m))"
    by (simp_all add: TensorView_set_def store_blocks [OF b] b)
  have d: "TensorView_destroy v ?m1 = m"
    using assms by (simp add: TensorView_destroy_def m1 copy_then_destroy)
  show ?thesis
    using c b u g s d by (simp add: case_prod_beta)
qed

text \<open>
  The view over \<open>[10, 20, 30, 40, 50]\<close> holds the only share: destroying it frees the
  buffer. Destroying it after it has been copied does not, and the copy reads and writes
  the buffer.
\<close>

theorem copy_shares_data_witness:
  "holds_share view5 mem5 \<and>
   TensorView_get view5 1 (TensorView_destroy view5 mem5) = Inl InvalidAccess \<and>
   (case TensorView_copy view5 mem5 of (c, m1) \<Rightarrow>
      c = view5 \<and> use_count (Some 0) m1 = 2 \<and>
      TensorView_get c 1 (TensorView_destroy view5 m1) = Inr 10 \<and>
      TensorView_get c 3
        (snd (TensorView_set c 3 99 (TensorView_destroy view5 m1))) = Inr 99)"
  using copy_shares_data [of view5 mem5 1 99]
  by (simp add: view5_def mem5_def holds_share_def TensorView_copy_def TensorView_destroy_def
      shared_ptr_copy_def shared_ptr_destroy_def use_count_def TensorView_get_def
      TensorView_set_def load_def store_def)

end
